theory Spec2Isabelle
  imports Main "HOL-Library.Word"
begin

section \<open>The tree container of cxx: data model\<close>

text \<open>
  The repository holds several drafts of one header, \<^verbatim>\<open>tree.h\<close>. The most complete one
  (\<^verbatim>\<open>src/unnamed/part_000\<close>) stores nodes by value: a node has its data, a shared pointer
  to a heap copy of its parent (\<^verbatim>\<open>nullptr\<close> for a root) and a vector of child nodes.

  The element type \<^verbatim>\<open>_ty\<close> is only required to offer \<^verbatim>\<open>==\<close> and \<^verbatim>\<open>!=\<close> with results
  convertible to bool (concept \<^verbatim>\<open>__is_cmp\<close>); the two operators are therefore parameters
  of every operation that compares elements.
\<close>

type_synonym 'a cmp = "'a \<Rightarrow> 'a \<Rightarrow> bool"

datatype 'a node =
  Node (data: 'a) (parent: "'a node option") (children: "'a node list")

text \<open>\<^verbatim>\<open>std::out_of_range\<close> is the only exception the headers throw.\<close>

datatype error = out_of_range

text \<open>\<^verbatim>\<open>explicit node(_ty const &data) : _data(data), _parent(nullptr)\<close>\<close>

definition node_new :: "'a \<Rightarrow> 'a node" where
  "node_new d = Node d None []"

text \<open>
  \<^verbatim>\<open>void append(node const &child) {
      child.parent = std::make_shared<node>(this);
      this->_children.push_back(child); }\<close>

  Two statements, with no check and no throw: the object that \<^verbatim>\<open>child\<close> refers to gets a
  fresh heap copy of this node as its parent, then a copy of that object goes to the end
  of the vector. \<open>node_append\<close> is the call whose argument is an object of its own, apart
  from this node: the write lands in that object, and the result is this node after the
  call. The call whose argument refers to this node, or to a node inside it, is
  \<open>node_append_ref\<close> below.
\<close>

definition node_append :: "'a node \<Rightarrow> 'a node \<Rightarrow> 'a node" where
  "node_append this child =
     Node (data this) (parent this)
       (children this @ [Node (data child) (Some this) (children child)])"





text \<open>\<^verbatim>\<open>bool is_leaf() const { return this->_children.empty(); }\<close>\<close>

definition is_leaf :: "'a node \<Rightarrow> bool" where
  "is_leaf this = (children this = [])"

text \<open>\<^verbatim>\<open>bool is_root() const { return this->_parent == nullptr; }\<close>\<close>

definition is_root :: "'a node \<Rightarrow> bool" where
  "is_root this = (parent this = None)"

text \<open>\<^verbatim>\<open>bool operator==(node const &o) const { return this->_data == o._data; }\<close>\<close>

definition node_eq :: "'a cmp \<Rightarrow> 'a node \<Rightarrow> 'a node \<Rightarrow> bool" where
  "node_eq eq this o' = eq (data this) (data o')"

text \<open>
  \<^verbatim>\<open>bool operator!=(node const &o) const { return this->_data != o._data; }\<close>
  (\<^verbatim>\<open>part_000\<close>): the element type's own \<^verbatim>\<open>!=\<close>.
\<close>

definition node_ne :: "'a cmp \<Rightarrow> 'a node \<Rightarrow> 'a node \<Rightarrow> bool" where
  "node_ne ne this o' = ne (data this) (data o')"

text \<open>
  The draft in \<^verbatim>\<open>src/tree.h\<close> negates the element type's \<^verbatim>\<open>==\<close> instead:
  \<^verbatim>\<open>bool operator!=(_node a, _node b) const { return !(a._data == b._data); }\<close>
\<close>

definition node_ne_draft :: "'a cmp \<Rightarrow> 'a node \<Rightarrow> 'a node \<Rightarrow> bool" where
  "node_ne_draft eq a b = (\<not> eq (data a) (data b))"

text \<open>What a call hands back to its caller: nothing when the function is \<^verbatim>\<open>void\<close>.\<close>

datatype returned = nothing | boolean bool

text \<open>
  Modelled from the spec: \<^verbatim>\<open>std::vector\<close> has no member \<^verbatim>\<open>remove\<close>, which \<^verbatim>\<open>node::remove\<close>
  calls on the children; no file of the repository defines one. The spec's words for
  what it does: "removes the first child structurally equal (by \<^verbatim>\<open>T\<close> equality) to
  \<^verbatim>\<open>child\<close> from \<^verbatim>\<open>children\<close>"; "removing a non-existent child is a no-op".
\<close>

fun vector_remove :: "('a \<Rightarrow> bool) \<Rightarrow> 'a list \<Rightarrow> 'a list" where
  "vector_remove is_value [] = []"
| "vector_remove is_value (e # es) =
     (if is_value e then es else e # vector_remove is_value es)"

text \<open>
  \<^verbatim>\<open>void remove(node const &child) { this->_children.remove(child); }\<close>

  The function is declared \<^verbatim>\<open>void\<close> and has no \<^verbatim>\<open>throw\<close>: the first component is what the
  caller gets, the second is this node after the call.
\<close>

definition node_remove :: "'a cmp \<Rightarrow> 'a node \<Rightarrow> 'a node \<Rightarrow> returned \<times> 'a node" where
  "node_remove eq this child =
     (nothing,
      Node (data this) (parent this)
        (vector_remove (\<lambda>e. node_eq eq e child) (children this)))"

text \<open>
  \<^verbatim>\<open>std::find(first, last, value)\<close> walks the range from the front and returns the
  iterator to the first element \<^verbatim>\<open>e\<close> with \<^verbatim>\<open>e == value\<close>, or \<^verbatim>\<open>last\<close> when there is none.
  An iterator into a vector is given by its distance from \<^verbatim>\<open>begin()\<close>; \<^verbatim>\<open>end()\<close> is at the
  distance \<^verbatim>\<open>size()\<close>.
\<close>

fun std_find :: "('a \<Rightarrow> bool) \<Rightarrow> 'a list \<Rightarrow> nat" where
  "std_find is_value [] = 0"
| "std_find is_value (e # es) = (if is_value e then 0 else Suc (std_find is_value es))"

text \<open>
  \<^verbatim>\<open>unsigned int index(node const& child) {
      return std::find(this->_children.begin(), this->_children.end(), child); }\<close>

  The function returns the iterator as an \<^verbatim>\<open>unsigned int\<close>. The language has no
  conversion from a vector iterator to \<^verbatim>\<open>unsigned int\<close> and the repository defines none,
  so the conversion is the parameter \<open>as_unsigned\<close>.
\<close>

definition node_index ::
    "(nat \<Rightarrow> 32 word) \<Rightarrow> 'a cmp \<Rightarrow> 'a node \<Rightarrow> 'a node \<Rightarrow> 32 word" where
  "node_index as_unsigned eq this child =
     as_unsigned (std_find (\<lambda>e. node_eq eq e child) (children this))"

text \<open>
  The lookup as the spec words it: "returns the 0-based position of the first
  structurally-equal child, or none if absent".
\<close>

fun first_position :: "('a \<Rightarrow> bool) \<Rightarrow> 'a list \<Rightarrow> nat option" where
  "first_position is_value [] = None"
| "first_position is_value (e # es) =
     (if is_value e then Some 0 else map_option Suc (first_position is_value es))"

definition index_of_spec :: "'a cmp \<Rightarrow> 'a node \<Rightarrow> 'a node \<Rightarrow> nat option" where
  "index_of_spec eq this child =
     first_position (\<lambda>e. node_eq eq e child) (children this)"

text \<open>
  \<^verbatim>\<open>std::shared_ptr<node> operator[](unsigned int idx) const {
      if (idx >= this->_children.size())
          throw std::out_of_range("index out of range");
      return std::make_shared<node>(this->_children[idx]); }\<close>
\<close>

definition node_subscript :: "'a node \<Rightarrow> 32 word \<Rightarrow> error + 'a node" where
  "node_subscript this idx =
     (if unat idx \<ge> length (children this) then Inl out_of_range
      else Inr (children this ! unat idx))"

section \<open>The pre-order iterator\<close>

text \<open>
  \<^verbatim>\<open>std::stack<node> _nodes\<close>: a stack is a list whose head is the top, and
  \<^verbatim>\<open>push\<close> puts an element on top.
\<close>

definition stack_push :: "'a \<Rightarrow> 'a list \<Rightarrow> 'a list" where
  "stack_push x st = x # st"

datatype 'a iterator = Iterator (nodes: "'a node list")

text \<open>
  \<^verbatim>\<open>explicit _iterator(node node) { if (node) this->_nodes.push(node); }\<close>

  The argument is tested like a pointer and \<^verbatim>\<open>end()\<close> passes \<^verbatim>\<open>nullptr\<close>, so it is a node
  or nothing.
\<close>

definition iterator_new :: "'a node option \<Rightarrow> 'a iterator" where
  "iterator_new node =
     (case node of None \<Rightarrow> Iterator [] | Some n \<Rightarrow> Iterator (stack_push n []))"

text \<open>
  \<^verbatim>\<open>bool operator==(_iterator const &other) const { return this->_nodes == other.nodes; }\<close>

  Two stacks are equal when they have the same size and equal elements position by
  position, under the node's \<^verbatim>\<open>==\<close>.
\<close>

definition iterator_eq :: "'a cmp \<Rightarrow> 'a iterator \<Rightarrow> 'a iterator \<Rightarrow> bool" where
  "iterator_eq eq this other = list_all2 (node_eq eq) (nodes this) (nodes other)"

text \<open>\<^verbatim>\<open>bool operator!=(_iterator const &other) const { return !(*this == other); }\<close>\<close>

definition iterator_ne :: "'a cmp \<Rightarrow> 'a iterator \<Rightarrow> 'a iterator \<Rightarrow> bool" where
  "iterator_ne eq this other = (\<not> iterator_eq eq this other)"

text \<open>
  \<^verbatim>\<open>_nodes.top()\<close> on an empty \<^verbatim>\<open>std::stack\<close> has no defined behaviour: \<open>None\<close>.
\<close>

definition stack_top :: "'a list \<Rightarrow> 'a option" where
  "stack_top st = (case st of [] \<Rightarrow> None | x # _ \<Rightarrow> Some x)"

text \<open>\<^verbatim>\<open>_ref operator*() const { return this->_nodes.top()->data; }\<close>\<close>

definition iterator_deref :: "'a iterator \<Rightarrow> 'a option" where
  "iterator_deref this = map_option data (stack_top (nodes this))"

text \<open>
  \<^verbatim>\<open>_iterator &operator++() {
      auto current = this->_nodes.top();
      this->_nodes.pop();
      for (auto it = current->children().rbegin(); it != current->children().rend(); ++it)
          this->_nodes.push(*it);
      return *this; }\<close>

  \<^verbatim>\<open>children()\<close> returns the vector by value
  (\<^verbatim>\<open>std::vector<node> children() { return this->_children; }\<close>), so each call in the loop
  header makes a new temporary vector: \<^verbatim>\<open>it\<close> starts as the reverse iterator of one
  temporary, which is destroyed at once, and is compared with \<^verbatim>\<open>rend()\<close> of another at
  every test. For a node with children the loop compares iterators of different vectors
  and reads a destroyed element, which has no defined behaviour: \<open>None\<close>, like the read
  of the top of an empty stack. For a node without children every temporary is empty and
  the body never runs: the node is popped and nothing is pushed.
\<close>

definition iterator_incr :: "'a iterator \<Rightarrow> 'a iterator option" where
  "iterator_incr this =
     (case nodes this of
        [] \<Rightarrow> None
      | current # popped \<Rightarrow>
          (if children current = [] then Some (Iterator popped) else None))"

section \<open>The tree\<close>

text \<open>
  \<^verbatim>\<open>_root\<close> is a node that the drafts test like a pointer (\<^verbatim>\<open>if (!this->_root)\<close> in
  \<^verbatim>\<open>src/tree.h\<close>) and a \<^verbatim>\<open>std::shared_ptr\<close> in \<^verbatim>\<open>src/unnamed/part_001\<close>: a node or nothing.
\<close>

datatype 'a tree = Tree (root: "'a node option")

text \<open>\<^verbatim>\<open>explicit tree() : _root(nullptr) {}\<close> (\<^verbatim>\<open>part_001\<close>)\<close>

definition tree_empty :: "'a tree" where
  "tree_empty = Tree None"

text \<open>\<^verbatim>\<open>explicit tree(_ty data) { this->_root = node(data); }\<close> (\<^verbatim>\<open>part_000\<close>)\<close>

definition tree_of_data :: "'a \<Rightarrow> 'a tree" where
  "tree_of_data d = Tree (Some (node_new d))"

text \<open>\<^verbatim>\<open>explicit tree(node root) : _root(root) {}\<close>\<close>

definition tree_of_node :: "'a node \<Rightarrow> 'a tree" where
  "tree_of_node r = Tree (Some r)"

text \<open>\<^verbatim>\<open>_iterator begin() { return _iterator(_root); }\<close>\<close>

definition tree_begin :: "'a tree \<Rightarrow> 'a iterator" where
  "tree_begin t = iterator_new (root t)"

text \<open>\<^verbatim>\<open>_iterator end() { return _iterator(nullptr); }\<close>\<close>

definition tree_end :: "'a tree \<Rightarrow> 'a iterator" where
  "tree_end t = iterator_new None"

text \<open>The number of nodes of a subtree; it bounds the work left on a stack of nodes.\<close>

fun node_count :: "'a node \<Rightarrow> nat" where
  "node_count (Node d p cs) = Suc (sum_list (map node_count cs))"

definition stack_work :: "'a node list \<Rightarrow> nat" where
  "stack_work st = sum_list (map node_count st)"

text \<open>
  The loop of \<^verbatim>\<open>search\<close> (\<^verbatim>\<open>part_000\<close>) and of \<^verbatim>\<open>operator[](const _ty &)\<close> (\<^verbatim>\<open>src/tree.h\<close>):

  \<^verbatim>\<open>while (!node_stack.empty()) {
      node current_node = node_stack.top();
      node_stack.pop();
      if (current_node.data() == data)
          return std::make_shared<node>(current_node);
      for (const node child: current_node.children())
          node_stack.push(child);
  }
  return nullptr;\<close>

  The children are pushed from the first to the last.
\<close>

function search_loop :: "'a cmp \<Rightarrow> 'a \<Rightarrow> 'a node list \<Rightarrow> 'a node option" where
  "search_loop eq x [] = None"
| "search_loop eq x (current_node # popped) =
     (if eq (data current_node) x then Some current_node
      else search_loop eq x (fold stack_push (children current_node) popped))"
  by pat_completeness auto
termination
proof (relation "measure (\<lambda>(eq, x, st). stack_work st)")
  show "wf (measure (\<lambda>(eq, x, st). stack_work st))" by simp
next
  fix eq :: "'a cmp" and x :: 'a and current_node :: "'a node" and popped :: "'a node list"
  have push_all: "stack_work (fold stack_push cs st) = stack_work cs + stack_work st"
    for cs st :: "'a node list"
    by (induction cs arbitrary: st) (simp_all add: stack_work_def stack_push_def)
  have "stack_work (children current_node) < node_count current_node"
    by (cases current_node) (simp add: stack_work_def)
  moreover have "stack_work (current_node # popped) = node_count current_node + stack_work popped"
    by (simp add: stack_work_def)
  ultimately have "stack_work (fold stack_push (children current_node) popped)
               < stack_work (current_node # popped)"
    by (simp add: push_all)
  then show "((eq, x, fold stack_push (children current_node) popped),
              (eq, x, current_node # popped)) \<in> measure (\<lambda>(eq, x, st). stack_work st)"
    by simp
qed

text \<open>
  The body of \<^verbatim>\<open>search\<close>: the stack starts with the root. \<^verbatim>\<open>src/tree.h\<close> returns
  \<^verbatim>\<open>nullptr\<close> first when there is no root (\<^verbatim>\<open>if (!this->_root) return nullptr;\<close>).
\<close>

definition tree_search :: "'a cmp \<Rightarrow> 'a tree \<Rightarrow> 'a \<Rightarrow> 'a node option" where
  "tree_search eq t x =
     (case root t of None \<Rightarrow> None
      | Some r \<Rightarrow> search_loop eq x (stack_push r []))"

text \<open>
  \<^verbatim>\<open>std::shared_ptr<node> search(_ty const &data) _GLIBCXX_CONST\<close>, and likewise
  \<^verbatim>\<open>_ty data() _GLIBCXX_CONST\<close> and \<^verbatim>\<open>std::vector<node> children() _GLIBCXX_CONST\<close>.

  \<^verbatim>\<open>_GLIBCXX_CONST\<close> is a macro of libstdc++ (\<^verbatim>\<open>bits/c++config.h\<close>), not of this repository,
  so what it expands to is a parameter. libstdc++ defines it as
  \<^verbatim>\<open>__attribute__ ((__const__))\<close>: the compiler may take the result of such a function to
  depend on the values of its arguments alone, and may drop or merge calls. The three
  functions read the tree through \<^verbatim>\<open>this\<close>, so under that definition the source does not
  determine what a call of \<^verbatim>\<open>search\<close> returns: \<open>None\<close>. Where the macro expands to nothing,
  the call returns what the body computes.
\<close>

datatype attribute = no_attribute | attribute_const

definition tree_search_declared ::
    "attribute \<Rightarrow> 'a cmp \<Rightarrow> 'a tree \<Rightarrow> 'a \<Rightarrow> 'a node option option" where
  "tree_search_declared glibcxx_const eq t x =
     (case glibcxx_const of
        attribute_const \<Rightarrow> None
      | no_attribute \<Rightarrow> Some (tree_search eq t x))"

text \<open>
  A traversal with the iterator, as a loop over the range runs it:
  \<^verbatim>\<open>for (auto it = first; it != stop; ++it) use(*it);\<close>
  The result lists the values that \<^verbatim>\<open>operator*\<close> reads, in the order of the visits; \<open>None\<close>
  stands for a run that meets a step without defined behaviour.
\<close>

function traverse :: "'a cmp \<Rightarrow> 'a iterator \<Rightarrow> 'a iterator \<Rightarrow> 'a list option" where
  "traverse eq it stop =
     (if iterator_ne eq it stop then
        (case iterator_deref it of
           None \<Rightarrow> None
         | Some v \<Rightarrow>
             (case iterator_incr it of
                None \<Rightarrow> None
              | Some it' \<Rightarrow> map_option ((#) v) (traverse eq it' stop)))
      else Some [])"
  by pat_completeness auto
termination
proof (relation "measure (\<lambda>(eq, it, stop). length (nodes it))")
  show "wf (measure (\<lambda>(eq, it, stop). length (nodes it)))" by simp
next
  fix eq :: "'a cmp" and it stop it' :: "'a iterator" and v :: 'a
  assume "iterator_incr it = Some it'"
  then have "length (nodes it') < length (nodes it)"
    by (auto simp: iterator_incr_def split: list.splits if_splits)
  then show "((eq, it', stop), (eq, it, stop)) \<in> measure (\<lambda>(eq, it, stop). length (nodes it))"
    by simp
qed

text \<open>\<open>advance_n k\<close> applies \<^verbatim>\<open>operator++\<close> \<open>k\<close> times.\<close>

primrec advance_n :: "nat \<Rightarrow> 'a iterator \<Rightarrow> 'a iterator option" where
  "advance_n 0 it = Some it"
| "advance_n (Suc k) it =
     (case advance_n k it of None \<Rightarrow> None | Some it' \<Rightarrow> iterator_incr it')"

section \<open>Reference orders\<close>

text \<open>
  Pre-order of a subtree: the node, then the subtrees of its children from the first to
  the last.
\<close>

fun preorder :: "'a node \<Rightarrow> 'a node list" where
  "preorder (Node d p cs) = Node d p cs # concat (map preorder cs)"

text \<open>
  The mirrored order: the node, then the subtrees of its children from the last to the
  first.
\<close>

fun mirrored_preorder :: "'a node \<Rightarrow> 'a node list" where
  "mirrored_preorder (Node d p cs) = Node d p cs # concat (map mirrored_preorder (rev cs))"

section \<open>Example trees\<close>

text \<open>A root valued 0 whose children, appended in this order, are valued 1, 2, 2, 3.\<close>

definition example_siblings :: "nat node" where
  "example_siblings =
     node_append (node_append (node_append (node_append (node_new 0)
       (node_new 1)) (node_new 2)) (node_new 2)) (node_new 3)"

text \<open>The root R with the children A and B, where A has the children C and D.\<close>

definition example_tree :: "string node" where
  "example_tree =
     node_append
       (node_append (node_new ''R'')
          (node_append (node_append (node_new ''A'') (node_new ''C'')) (node_new ''D'')))
       (node_new ''B'')"

text \<open>
  A root valued 0 with two children valued 1: the first has a child valued 2, the second
  is a leaf.
\<close>

definition example_duplicates :: "nat node" where
  "example_duplicates =
     node_append
       (node_append (node_new 0) (node_append (node_new 1) (node_new 2)))
       (node_new 1)"

section \<open>Facts about the loops\<close>

lemma fold_stack_push: "fold stack_push cs st = rev cs @ st"
  by (induction cs arbitrary: st) (simp_all add: stack_push_def)

lemma search_loop_find:
  "search_loop eq x st = find (\<lambda>n. eq (data n) x) (concat (map mirrored_preorder st))"
proof (induction eq x st rule: search_loop.induct)
  case (1 eq x)
  show ?case by simp
next
  case (2 eq x current_node popped)
  obtain d p cs where cur: "current_node = Node d p cs" by (cases current_node)
  show ?case
  proof (cases "eq (data current_node) x")
    case True
    then show ?thesis by (simp add: cur)
  next
    case False
    with 2 have "search_loop eq x (fold stack_push (children current_node) popped) =
      find (\<lambda>n. eq (data n) x)
        (concat (map mirrored_preorder (fold stack_push (children current_node) popped)))"
      by simp
    with False show ?thesis by (simp add: cur fold_stack_push)
  qed
qed

lemma iterator_ne_end: "iterator_ne eq it (Iterator []) = (nodes it \<noteq> [])"
  by (simp add: iterator_ne_def iterator_eq_def)

lemma traverse_leaves:
  "stop = Iterator [] \<Longrightarrow>
   traverse eq it stop =
     (if list_all (\<lambda>n. children n = []) (nodes it) then Some (map data (nodes it)) else None)"
proof (induction eq it stop rule: traverse.induct)
  case (1 eq it stop)
  show ?case
  proof (cases "nodes it")
    case Nil
    then show ?thesis
      using 1(2) by (subst traverse.simps) (simp del: traverse.simps add: iterator_ne_end)
  next
    case (Cons current popped)
    have ne: "iterator_ne eq it stop" using Cons 1(2) by (simp add: iterator_ne_end)
    have val: "iterator_deref it = Some (data current)"
      by (simp add: Cons iterator_deref_def stack_top_def)
    show ?thesis
    proof (cases "children current = []")
      case True
      have incr: "iterator_incr it = Some (Iterator popped)"
        by (simp add: Cons True iterator_incr_def)
      have rest: "traverse eq (Iterator popped) stop =
          (if list_all (\<lambda>n. children n = []) popped then Some (map data popped) else None)"
        using 1(1) [OF ne val incr 1(2)] by (simp del: traverse.simps)
      have "traverse eq it stop = map_option ((#) (data current)) (traverse eq (Iterator popped) stop)"
        by (subst traverse.simps) (simp del: traverse.simps add: ne val incr)
      then show ?thesis by (simp del: traverse.simps add: rest Cons True)
    next
      case False
      have incr: "iterator_incr it = None"
        by (simp add: Cons False iterator_incr_def)
      have "traverse eq it stop = None"
        by (subst traverse.simps) (simp del: traverse.simps add: ne val incr)
      then show ?thesis by (simp del: traverse.simps add: Cons False)
    qed
  qed
qed

lemma set_mirrored_preorder: "set (mirrored_preorder n) = set (preorder n)"
proof (induction n rule: preorder.induct)
  case (1 d p cs)
  then show ?case by simp
qed

section \<open>Facts about the children vector\<close>

lemma vector_remove_first:
  "\<forall>e\<in>set before. \<not> P e \<Longrightarrow> P c \<Longrightarrow> vector_remove P (before @ c # after) = before @ after"
  by (induction before) auto

lemma vector_remove_absent: "\<forall>e\<in>set xs. \<not> P e \<Longrightarrow> vector_remove P xs = xs"
  by (induction xs) auto

lemma first_position_Some:
  "first_position P xs = Some k \<Longrightarrow>
   std_find P xs = k \<and> k < length xs \<and> P (xs ! k) \<and> (\<forall>j<k. \<not> P (xs ! j))"
proof (induction xs arbitrary: k)
  case Nil
  then show ?case by simp
next
  case (Cons e es)
  show ?case
  proof (cases "P e")
    case True
    with Cons.prems show ?thesis by simp
  next
    case False
    with Cons.prems obtain k' where k': "first_position P es = Some k'" and k: "k = Suc k'"
      by auto
    from Cons.IH [OF k'] False k show ?thesis
      by (auto simp: less_Suc_eq_0_disj)
  qed
qed

lemma first_position_None:
  "first_position P xs = None \<Longrightarrow> std_find P xs = length xs \<and> (\<forall>e\<in>set xs. \<not> P e)"
  by (induction xs) (auto split: if_splits)

section \<open>Facts about references into a node\<close>


section \<open>Node comparison\<close>

text \<open>
  C8. Two nodes compare equal exactly when their data compare equal under the element
  type's equality; neither the parent reference nor the children take part, so nodes with
  equal data and different subtrees or parents are equal.
\<close>

theorem node_eq_data_only:
  "node_eq eq a b = eq (data a) (data b) \<and>
   node_eq eq (Node v p cs) (Node w q ds) = eq v w \<and>
   node_eq eq (Node v p cs) (Node v' q ds) = node_eq eq (Node v p' cs') (Node v' q' ds')"
  by (simp add: node_eq_def)

text \<open>
  C10 (amended). \<^verbatim>\<open>a != b\<close> returns the element type's \<^verbatim>\<open>!=\<close> on the two data, so it is
  the negation of \<^verbatim>\<open>a == b\<close> exactly when the element type's \<^verbatim>\<open>!=\<close> is the negation of
  its \<^verbatim>\<open>==\<close> on these data. The draft of \<^verbatim>\<open>src/tree.h\<close>, which negates \<^verbatim>\<open>==\<close>, is the
  negation of \<^verbatim>\<open>a == b\<close> for every element type.
\<close>

theorem node_ne_negation:
  "(ne (data a) (data b) = (\<not> eq (data a) (data b)) \<longrightarrow>
      node_ne ne a b = (\<not> node_eq eq a b)) \<and>
   (node_ne ne a b = (\<not> node_eq eq a b) \<longrightarrow>
      ne (data a) (data b) = (\<not> eq (data a) (data b))) \<and>
   node_ne_draft eq a b = (\<not> node_eq eq a b)"
  by (simp add: node_ne_def node_eq_def node_ne_draft_def)

text \<open>With the equality and inequality of the natural numbers the two operators agree.\<close>

theorem node_ne_negation_witness:
  "node_ne (\<noteq>) (node_new (1::nat)) (node_new 2) = (\<not> node_eq (=) (node_new (1::nat)) (node_new 2)) \<and>
   node_ne (\<noteq>) (node_new (1::nat)) (node_new 1) = (\<not> node_eq (=) (node_new (1::nat)) (node_new 1))"
proof -
  have h: "((\<noteq>) (data (node_new (1::nat))) (data (node_new c))) =
      (\<not> (=) (data (node_new 1)) (data (node_new c)))" for c :: nat
    by simp
  from node_ne_negation [of "(\<noteq>)" "node_new (1::nat)" "node_new 2" "(=)"] h [of 2]
  have "node_ne (\<noteq>) (node_new (1::nat)) (node_new 2) = (\<not> node_eq (=) (node_new (1::nat)) (node_new 2))"
    by blast
  moreover from node_ne_negation [of "(\<noteq>)" "node_new (1::nat)" "node_new 1" "(=)"] h [of 1]
  have "node_ne (\<noteq>) (node_new (1::nat)) (node_new 1) = (\<not> node_eq (=) (node_new (1::nat)) (node_new 1))"
    by blast
  ultimately show ?thesis by simp
qed

text \<open>
  The claim as stated fails: the concept \<^verbatim>\<open>__is_cmp\<close> only asks that \<^verbatim>\<open>==\<close> and \<^verbatim>\<open>!=\<close>
  exist. For an element type whose \<^verbatim>\<open>!=\<close> always answers true, two nodes with the same
  data are both equal and unequal.
\<close>

theorem node_ne_negation_counterexample:
  "node_eq (=) (node_new (1::nat)) (node_new 1) \<and>
   node_ne (\<lambda>x y. True) (node_new (1::nat)) (node_new 1) \<and>
   node_ne (\<lambda>x y. True) (node_new (1::nat)) (node_new 1) \<noteq>
     (\<not> node_eq (=) (node_new (1::nat)) (node_new 1))"
  by (simp add: node_ne_def node_eq_def)

section \<open>Appending a child\<close>




section \<open>Child access by position\<close>

text \<open>
  C5. On a node with \<open>k\<close> children, \<^verbatim>\<open>operator[]\<close> throws \<^verbatim>\<open>std::out_of_range\<close> for every
  index \<open>i \<ge> k\<close> and returns the \<open>i\<close>-th child of the vector for every \<open>i < k\<close>. The
  positions follow the order of insertion: \<^verbatim>\<open>append\<close> leaves the position of every
  earlier child as it was and puts the new child at position \<open>k\<close>.
\<close>

theorem node_subscript_bounds:
  "(length (children this) \<le> unat i \<longrightarrow> node_subscript this i = Inl out_of_range) \<and>
   (unat i < length (children this) \<longrightarrow>
      node_subscript this i = Inr (children this ! unat i) \<and>
      node_subscript (node_append this c) i = node_subscript this i) \<and>
   (length (children this) < 2 ^ 32 \<longrightarrow>
      node_subscript (node_append this c) (word_of_nat (length (children this))) =
        Inr (Node (data c) (Some this) (children c)))"
  by (simp add: node_subscript_def node_append_def unat_of_nat nth_append)

text \<open>
  On the children valued 1, 2, 2, 3: index 4 is out of range, index 1 gives the first node
  valued 2, and a node valued 5 appended next is found at index 4.
\<close>

theorem node_subscript_witness:
  "node_subscript example_siblings 4 = Inl out_of_range \<and>
   map_sum id data (node_subscript example_siblings 1) = Inr 2 \<and>
   map_sum id data (node_subscript (node_append example_siblings (node_new 5)) 4) = Inr 5"
proof -
  have len: "length (children example_siblings) = 4"
    by (simp add: example_siblings_def node_append_def node_new_def)
  have a: "length (children example_siblings) \<le> unat (4 :: 32 word)" by (simp add: len)
  have b: "unat (1 :: 32 word) < length (children example_siblings)" by (simp add: len)
  have c: "length (children example_siblings) < 2 ^ 32" by (simp add: len)
  have k: "data (children example_siblings ! Suc 0) = 2"
    by (simp add: example_siblings_def node_append_def node_new_def)
  from node_subscript_bounds [of example_siblings 4 "node_new 5"] a c
  have "node_subscript example_siblings 4 = Inl out_of_range"
    and "node_subscript (node_append example_siblings (node_new 5)) 4 =
         Inr (Node (data (node_new 5)) (Some example_siblings) (children (node_new 5)))"
    by (simp_all add: len)
  moreover from node_subscript_bounds [of example_siblings 1] b
  have "node_subscript example_siblings 1 = Inr (children example_siblings ! 1)" by simp
  ultimately show ?thesis by (simp add: k node_new_def)
qed

section \<open>Child removal\<close>

text \<open>
  C4 (amended). \<^verbatim>\<open>remove\<close> hands nothing back to its caller, neither true nor false, and
  raises no error. It leaves the data and the parent of the node alone. With the vector's
  \<^verbatim>\<open>remove\<close> as the spec words it, the first child structurally equal to the argument is
  erased and the children before and after it keep their order, and when no child is
  equal the node is unchanged.
\<close>

theorem node_remove_returns_nothing:
  "fst (node_remove eq this child) = nothing \<and>
   data (snd (node_remove eq this child)) = data this \<and>
   parent (snd (node_remove eq this child)) = parent this \<and>
   ((children this = before @ c # after \<and> node_eq eq c child \<and>
       (\<forall>e\<in>set before. \<not> node_eq eq e child)) \<longrightarrow>
      children (snd (node_remove eq this child)) = before @ after) \<and>
   ((\<forall>e\<in>set (children this). \<not> node_eq eq e child) \<longrightarrow>
      snd (node_remove eq this child) = this)"
proof -
  have hit: "children (snd (node_remove eq this child)) = before @ after"
    if "children this = before @ c # after" "node_eq eq c child"
      "\<forall>e\<in>set before. \<not> node_eq eq e child"
    using that vector_remove_first [of before "\<lambda>e. node_eq eq e child" c after]
    by (simp add: node_remove_def)
  have miss: "snd (node_remove eq this child) = this"
    if "\<forall>e\<in>set (children this). \<not> node_eq eq e child"
    using that vector_remove_absent [of "children this" "\<lambda>e. node_eq eq e child"]
    by (cases this) (simp add: node_remove_def)
  from hit miss show ?thesis by (simp add: node_remove_def)
qed

text \<open>
  On the children valued 1, 2, 2, 3, removing a node valued 2 leaves 1, 2, 3, and
  removing a node valued 7 changes nothing.
\<close>

theorem node_remove_witness:
  "map data (children (snd (node_remove (=) example_siblings (node_new 2)))) = [1, 2, 3] \<and>
   snd (node_remove (=) example_siblings (node_new 7)) = example_siblings"
proof -
  let ?one = "Node (1::nat) (Some (node_new 0)) []"
  let ?two = "Node (2::nat) (Some (node_append (node_new 0) (node_new 1))) []"
  let ?rest = "tl (tl (children example_siblings))"
  have split: "children example_siblings = [?one] @ ?two # ?rest"
    by (simp add: example_siblings_def node_append_def node_new_def)
  have is_two: "node_eq (=) ?two (node_new 2)" by (simp add: node_eq_def node_new_def)
  have not_one: "\<forall>e\<in>set [?one]. \<not> node_eq (=) e (node_new 2)"
    by (simp add: node_eq_def node_new_def)
  have absent: "\<forall>e\<in>set (children example_siblings). \<not> node_eq (=) e (node_new 7)"
    by (simp add: example_siblings_def node_append_def node_new_def node_eq_def)
  from node_remove_returns_nothing
    [of "(=)" example_siblings "node_new 2" "[?one]" ?two ?rest] split is_two not_one
  have "children (snd (node_remove (=) example_siblings (node_new 2))) = [?one] @ ?rest"
    by blast
  moreover have "map data ([?one] @ ?rest) = [1, 2, 3]"
    by (simp add: example_siblings_def node_append_def node_new_def)
  moreover from node_remove_returns_nothing [of "(=)" example_siblings "node_new 7"] absent
  have "snd (node_remove (=) example_siblings (node_new 7)) = example_siblings"
    by blast
  ultimately show ?thesis by simp
qed

text \<open>
  The claim as stated fails: the second child of \<open>example_siblings\<close> is equal to a node
  valued 2 and the call does not hand back true; no child is equal to a node valued 7
  and the call does not hand back false.
\<close>

theorem node_remove_returns_bool_counterexample:
  "node_eq (=) (children example_siblings ! 1) (node_new 2) \<and>
   fst (node_remove (=) example_siblings (node_new 2)) \<noteq> boolean True \<and>
   list_all (\<lambda>e. \<not> node_eq (=) e (node_new 7)) (children example_siblings) \<and>
   fst (node_remove (=) example_siblings (node_new 7)) \<noteq> boolean False"
  by (simp add: node_remove_def example_siblings_def node_append_def node_new_def node_eq_def)

section \<open>Child lookup by value\<close>

text \<open>
  C6 (amended). \<^verbatim>\<open>index\<close> hands back an \<^verbatim>\<open>unsigned int\<close> converted from the iterator that
  \<^verbatim>\<open>std::find\<close> returns, whatever the conversion is. When the spec's lookup gives the
  position \<open>k\<close>, that iterator is at the distance \<open>k\<close> from \<^verbatim>\<open>begin()\<close>: the child there is
  structurally equal to the argument and no earlier child is. When the spec's lookup
  gives none, no child is equal and the iterator is \<^verbatim>\<open>end()\<close>, at the distance of the
  number of children; the result is then still an \<^verbatim>\<open>unsigned int\<close>.
\<close>

theorem node_index_converts_find_iterator:
  "(index_of_spec eq this child = Some k \<longrightarrow>
      node_index as_unsigned eq this child = as_unsigned k \<and>
      k < length (children this) \<and>
      node_eq eq (children this ! k) child \<and>
      (\<forall>j<k. \<not> node_eq eq (children this ! j) child)) \<and>
   (index_of_spec eq this child = None \<longrightarrow>
      node_index as_unsigned eq this child = as_unsigned (length (children this)) \<and>
      (\<forall>e\<in>set (children this). \<not> node_eq eq e child))"
  using first_position_Some [of "\<lambda>e. node_eq eq e child" "children this" k]
    first_position_None [of "\<lambda>e. node_eq eq e child" "children this"]
  by (simp add: node_index_def index_of_spec_def)

text \<open>
  On the children valued 1, 2, 2, 3, with the distance itself as the conversion: a node
  valued 2 gives the distance 1 and a node valued 7 the distance of \<^verbatim>\<open>end()\<close>.
\<close>

theorem node_index_witness:
  "node_index word_of_nat (=) example_siblings (node_new 2) = word_of_nat 1 \<and>
   node_index word_of_nat (=) example_siblings (node_new 7) =
     word_of_nat (length (children example_siblings))"
proof -
  have present: "index_of_spec (=) example_siblings (node_new 2) = Some 1"
    by (simp add: index_of_spec_def example_siblings_def node_append_def node_new_def
        node_eq_def)
  have absent: "index_of_spec (=) example_siblings (node_new 7) = None"
    by (simp add: index_of_spec_def example_siblings_def node_append_def node_new_def
        node_eq_def)
  from node_index_converts_find_iterator [of "(=)" example_siblings "node_new 2" 1 word_of_nat]
    present
  have "node_index word_of_nat (=) example_siblings (node_new 2) = word_of_nat 1"
    by blast
  moreover
  from node_index_converts_find_iterator [of "(=)" example_siblings "node_new 7" _ word_of_nat]
    absent
  have "node_index word_of_nat (=) example_siblings (node_new 7) =
     word_of_nat (length (children example_siblings))"
    by blast
  ultimately show ?thesis by simp
qed

text \<open>
  The claim as stated fails: for a node valued 9, which no child equals, the spec's
  lookup gives none, and the \<^verbatim>\<open>unsigned int\<close> that \<^verbatim>\<open>index\<close> hands back, read as a
  position, is not none.
\<close>

theorem node_index_absent_counterexample:
  "index_of_spec (=) example_siblings (node_new 9) = None \<and>
   Some (unat (node_index word_of_nat (=) example_siblings (node_new 9))) \<noteq>
     index_of_spec (=) example_siblings (node_new 9)"
  by (simp add: index_of_spec_def example_siblings_def node_append_def node_new_def
      node_eq_def)

section \<open>Advancing the iterator\<close>

text \<open>
  C9. The claim has \<^verbatim>\<open>operator++\<close> defined on every stack that is not empty, popping the
  top node and pushing its children in reverse. The source is defined on fewer: with a top
  node that has no children it pops that node and pushes nothing; with a top node that has
  children its loop runs between two temporary copies of the children and has no defined
  result, as on the empty stack. On the example tree the iterator at \<^verbatim>\<open>begin()\<close> differs
  from \<^verbatim>\<open>end()\<close>, its top node has the children A and B, and \<^verbatim>\<open>++\<close> has no defined result.
\<close>

theorem iterator_incr_undefined_with_children:
  "iterator_incr (Iterator (current # popped)) =
     (if children current = [] then Some (Iterator popped) else None) \<and>
   iterator_incr (Iterator []) = None \<and>
   iterator_ne eq (tree_begin (tree_of_node example_tree)) (tree_end (tree_of_node example_tree)) \<and>
   map data (children example_tree) = [''A'', ''B''] \<and>
   iterator_incr (tree_begin (tree_of_node example_tree)) = None"
proof -
  have first: "tree_begin (tree_of_node example_tree) = Iterator [example_tree]"
    by (simp add: tree_begin_def tree_of_node_def iterator_new_def stack_push_def)
  have stop: "tree_end (tree_of_node example_tree) = Iterator []"
    by (simp add: tree_end_def iterator_new_def)
  have kids: "map data (children example_tree) = [''A'', ''B'']"
    by (simp add: example_tree_def node_append_def node_new_def)
  then have "children example_tree \<noteq> []" by auto
  then have "iterator_incr (Iterator [example_tree]) = None"
    by (simp add: iterator_incr_def)
  with kids show ?thesis
    by (simp add: first stop iterator_ne_end) (simp add: iterator_incr_def)
qed

section \<open>Traversal\<close>

text \<open>
  C3. The claim has the loop from \<^verbatim>\<open>begin()\<close> to \<^verbatim>\<open>end()\<close> visit every node once in
  pre-order. In the source the loop is defined only while every node it pops has no
  children, and then the values read by \<^verbatim>\<open>operator*\<close> are the data of the stacked nodes
  from the top down; a tree whose root has children has no defined traversal, and a tree
  of one node yields the data of its root. On the example tree \<^verbatim>\<open>operator*\<close> at
  \<^verbatim>\<open>begin()\<close> reads R, the first \<^verbatim>\<open>++\<close> has no defined result, and so the traversal has
  none, where the claim has R, A, C, D, B and five advances.
\<close>

theorem iterator_traversal_stops_at_inner_node:
  "traverse eq (Iterator st) (tree_end t) =
     (if list_all (\<lambda>n. children n = []) st then Some (map data st) else None) \<and>
   traverse eq (tree_begin (tree_of_node r)) (tree_end (tree_of_node r)) =
     (if children r = [] then Some [data r] else None) \<and>
   iterator_deref (tree_begin (tree_of_node example_tree)) = Some ''R'' \<and>
   advance_n 1 (tree_begin (tree_of_node example_tree)) = None \<and>
   traverse eq' (tree_begin (tree_of_node example_tree)) (tree_end (tree_of_node example_tree))
     = None"
proof -
  have first: "tree_begin (tree_of_node n) = Iterator [n]" for n :: "'b node"
    by (simp add: tree_begin_def tree_of_node_def iterator_new_def stack_push_def)
  have stop: "tree_end u = Iterator []" for u :: "'b tree"
    by (simp add: tree_end_def iterator_new_def)
  have walk: "traverse c (Iterator ns) (Iterator []) =
      (if list_all (\<lambda>n. children n = []) ns then Some (map data ns) else None)"
    for c :: "'b cmp" and ns :: "'b node list"
    using traverse_leaves [of "Iterator []" c "Iterator ns"] by (simp del: traverse.simps)
  have kids: "children example_tree \<noteq> []"
    by (simp add: example_tree_def node_append_def node_new_def)
  have top: "data example_tree = ''R''"
    by (simp add: example_tree_def node_append_def node_new_def)
  have "advance_n 1 (Iterator [example_tree]) = None"
    using kids by (simp add: iterator_incr_def)
  moreover have "iterator_deref (Iterator [example_tree]) = Some ''R''"
    by (simp add: iterator_deref_def stack_top_def top)
  ultimately show ?thesis
    using kids by (simp del: traverse.simps add: first stop walk)
qed

section \<open>Search\<close>

text \<open>
  C1 (amended). As its body is written, \<^verbatim>\<open>search\<close> on a tree with a root returns a node
  of the tree whose data equals the target whenever the tree has one, and nothing when it
  has none. Among several such nodes it returns the first one in the order in which its
  loop visits the tree: the loop pushes the children of each popped node from the first
  to the last, so it visits a node before its children and the children from the last to
  the first. Under the \<^verbatim>\<open>__attribute__ ((__const__))\<close> that libstdc++ puts on \<^verbatim>\<open>search\<close>,
  \<^verbatim>\<open>data()\<close> and \<^verbatim>\<open>children()\<close>, the source leaves the result of a call undetermined.
\<close>

theorem tree_search_first_in_visit_order:
  "tree_search_declared no_attribute eq (tree_of_node r) x =
     Some (find (\<lambda>n. eq (data n) x) (mirrored_preorder r)) \<and>
   ((\<exists>n\<in>set (preorder r). eq (data n) x) \<longrightarrow>
      (\<exists>m\<in>set (preorder r).
         tree_search_declared no_attribute eq (tree_of_node r) x = Some (Some m) \<and>
         eq (data m) x)) \<and>
   ((\<forall>n\<in>set (preorder r). \<not> eq (data n) x) \<longrightarrow>
      tree_search_declared no_attribute eq (tree_of_node r) x = Some None) \<and>
   tree_search_declared attribute_const eq t x = None"
proof -
  let ?P = "\<lambda>n. eq (data n) x"
  have visit: "tree_search eq (tree_of_node r) x = find ?P (mirrored_preorder r)"
    by (simp add: tree_search_def tree_of_node_def stack_push_def search_loop_find)
  have found: "\<exists>m\<in>set (preorder r). find ?P (mirrored_preorder r) = Some m \<and> ?P m"
    if "\<exists>n\<in>set (preorder r). ?P n"
  proof -
    from that have "find ?P (mirrored_preorder r) \<noteq> None"
      by (auto simp: find_None_iff set_mirrored_preorder)
    then obtain m where m: "find ?P (mirrored_preorder r) = Some m" by auto
    then have "m \<in> set (mirrored_preorder r)" and "?P m"
      by (auto simp: find_Some_iff)
    with m show ?thesis by (auto simp: set_mirrored_preorder)
  qed
  have missing: "find ?P (mirrored_preorder r) = None"
    if "\<forall>n\<in>set (preorder r). \<not> ?P n"
    using that by (simp add: find_None_iff set_mirrored_preorder)
  from visit found missing show ?thesis by (simp add: tree_search_declared_def)
qed

text \<open>
  In \<open>example_duplicates\<close>, as the body is written, the value 1 is found and the value 7 is
  not.
\<close>

theorem tree_search_witness:
  "(\<exists>m. tree_search_declared no_attribute (=) (tree_of_node example_duplicates) 1 = Some (Some m)
      \<and> data m = 1) \<and>
   tree_search_declared no_attribute (=) (tree_of_node example_duplicates) 7 = Some None"
proof -
  have present: "\<exists>n\<in>set (preorder example_duplicates). data n = 1"
    by (simp add: example_duplicates_def node_append_def node_new_def)
  have absent: "\<forall>n\<in>set (preorder example_duplicates). \<not> data n = 7"
    by (simp add: example_duplicates_def node_append_def node_new_def)
  from tree_search_first_in_visit_order [of "(=)" example_duplicates 1] present
  have "\<exists>m. tree_search_declared no_attribute (=) (tree_of_node example_duplicates) 1
      = Some (Some m) \<and> data m = 1"
    by blast
  moreover from tree_search_first_in_visit_order [of "(=)" example_duplicates 7] absent
  have "tree_search_declared no_attribute (=) (tree_of_node example_duplicates) 7 = Some None"
    by blast
  ultimately show ?thesis by simp
qed

text \<open>
  The claim as stated fails: in \<open>example_duplicates\<close> the first node valued 1 in pre-order
  is the first child, which has a child valued 2; the body of \<^verbatim>\<open>search\<close> returns the second
  child, a leaf, and under the attribute the source determines no result.
\<close>

theorem tree_search_preorder_first_counterexample:
  "map_option (map data \<circ> children)
     (find (\<lambda>n. data n = 1) (preorder example_duplicates)) = Some [2] \<and>
   map_option (map_option (map data \<circ> children))
     (tree_search_declared no_attribute (=) (tree_of_node example_duplicates) 1)
     = Some (Some []) \<and>
   tree_search_declared no_attribute (=) (tree_of_node example_duplicates) 1 \<noteq>
     Some (find (\<lambda>n. data n = 1) (preorder example_duplicates)) \<and>
   tree_search_declared attribute_const (=) (tree_of_node example_duplicates) 1 \<noteq>
     Some (find (\<lambda>n. data n = 1) (preorder example_duplicates))"
  by (simp add: example_duplicates_def node_append_def node_new_def tree_search_def
      tree_of_node_def stack_push_def tree_search_declared_def)

section \<open>The empty tree\<close>

text \<open>
  C7. A tree constructed without a root has no root, its \<^verbatim>\<open>begin()\<close> equals its \<^verbatim>\<open>end()\<close>
  so that the traversal visits nothing, and a search for any value returns nothing.
\<close>

theorem empty_tree_has_nothing:
  "root (tree_empty :: 'a tree) = None \<and>
   tree_begin (tree_empty :: 'a tree) = tree_end tree_empty \<and>
   iterator_eq eq (tree_begin (tree_empty :: 'a tree)) (tree_end tree_empty) \<and>
   traverse eq (tree_begin (tree_empty :: 'a tree)) (tree_end tree_empty) = Some [] \<and>
   tree_search eq (tree_empty :: 'a tree) x = None"
proof -
  have "traverse eq (Iterator []) (Iterator []) = Some []"
    by (subst traverse.simps) (simp del: traverse.simps add: iterator_ne_end)
  then show ?thesis
    by (simp add: tree_empty_def tree_begin_def tree_end_def iterator_new_def
        iterator_eq_def tree_search_def)
qed

end
